theory Spec2Isabelle
  imports Complex_Main "HOL-Library.Sublist"
begin

section \<open>Values, exceptions and HTTP responses\<close>

text \<open>
  The JSON values that \<^verbatim>\<open>response.json()\<close> hands to a tool handler. A Python dict
  keeps its insertion order, so an object is an association list. Python floats are
  idealised as rationals throughout.
\<close>

datatype jvalue =
    JNull
  | JBool bool
  | JInt int
  | JFloat rat
  | JStr string
  | JArr "jvalue list"
  | JObj "(string \<times> jvalue) list"

text \<open>
  The exceptions the modelled code can meet. All of them are subclasses of Python's
  \<^verbatim>\<open>Exception\<close>. \<open>HTTPStatusError\<close> carries the status code of its response.
\<close>

datatype py_exn =
    HTTPStatusError int
  | RequestError string
  | ZeroDivisionError
  | KeyError
  | IndexError
  | TypeError
  | AttributeError
  | ValueError
  | OtherException string

text \<open>
  An \<^verbatim>\<open>httpx.Response\<close>, seen through what the code reads of it: the status code, the
  raw body, and what calling \<^verbatim>\<open>response.json()\<close> yields (a value, or the exception
  raised when the body is not JSON).
\<close>

record response =
  status_code :: int
  body :: string
  json :: "py_exn + jvalue"

text \<open>What \<^verbatim>\<open>await client.get(url)\<close> does: it delivers a response or raises.\<close>

datatype outcome = Response response | Raises py_exn

section \<open>The rate limiter and the caching client (utils)\<close>

record rate_limiter =
  calls_per_second :: rat
  min_interval :: rat
  last_call_time :: rat

text \<open>
  \<^verbatim>\<open>RateLimiter.__init__\<close>: the only thing that can fail is the division
  \<^verbatim>\<open>1.0 / calls_per_second\<close>.
\<close>

definition RateLimiter_init :: "rat \<Rightarrow> py_exn + rate_limiter" where
  "RateLimiter_init cps =
     (if cps = 0 then Inl ZeroDivisionError
      else Inr \<lparr>calls_per_second = cps, min_interval = 1 / cps, last_call_time = 0\<rparr>)"

text \<open>
  The event loop, as far as the client sees it: its clock, and the log of the network
  calls dispatched so far (URL and dispatch time).
\<close>

record world =
  now :: rat
  requests :: "(string \<times> rat) list"

text \<open>
  The environment: what the upstream answers to a URL dispatched at a given time, how
  long the answer takes, and by how much \<^verbatim>\<open>asyncio.sleep\<close> oversleeps.
\<close>

record env =
  upstream :: "string \<Rightarrow> rat \<Rightarrow> outcome"
  latency :: "string \<Rightarrow> rat \<Rightarrow> rat"
  oversleep :: "rat \<Rightarrow> rat \<Rightarrow> rat"

definition sleep :: "env \<Rightarrow> rat \<Rightarrow> world \<Rightarrow> world" where
  "sleep e d w = w\<lparr>now := now w + d + oversleep e (now w) d\<rparr>"

text \<open>
  \<^verbatim>\<open>RateLimiter.acquire\<close>, run by one caller holding the lock from the first clock
  read to the stamp.
\<close>

definition acquire :: "env \<Rightarrow> rate_limiter \<Rightarrow> world \<Rightarrow> rate_limiter \<times> world" where
  "acquire e rl w =
     (let current_time = now w;
          time_since_last_call = current_time - last_call_time rl;
          w' = (if time_since_last_call < min_interval rl
                then sleep e (min_interval rl - time_since_last_call) w
                else w)
      in (rl\<lparr>last_call_time := now w'\<rparr>, w'))"

record cache_entry =
  time :: rat
  cached :: response

record client =
  limiter :: rate_limiter
  timeout :: rat
  cache :: "string \<rightharpoonup> cache_entry"

definition PubChemClient_init :: "rat \<Rightarrow> rat \<Rightarrow> py_exn + client" where
  "PubChemClient_init rate_limit tmo =
     (case RateLimiter_init rate_limit of
        Inl ex \<Rightarrow> Inl ex
      | Inr rl \<Rightarrow> Inr \<lparr>limiter = rl, timeout = tmo, cache = Map.empty\<rparr>)"

text \<open>\<^verbatim>\<open>cache_key or url\<close>: \<^verbatim>\<open>None\<close> and the empty string both give the URL.\<close>

definition effective_key :: "string option \<Rightarrow> string \<Rightarrow> string" where
  "effective_key cache_key url =
     (case cache_key of None \<Rightarrow> url | Some k \<Rightarrow> if k = [] then url else k)"

text \<open>The cache check at the head of \<^verbatim>\<open>PubChemClient.get\<close>.\<close>

definition cache_lookup :: "client \<Rightarrow> string \<Rightarrow> rat \<Rightarrow> int \<Rightarrow> response option" where
  "cache_lookup c k t cache_ttl =
     (case cache c k of
        None \<Rightarrow> None
      | Some entry \<Rightarrow> if t - time entry < of_int cache_ttl then Some (cached entry) else None)"

text \<open>
  \<^verbatim>\<open>PubChemClient.get\<close>. \<open>Inl\<close> is an exception leaving the method: there is no
  \<^verbatim>\<open>try\<close> in it, so what the transport raises propagates.
\<close>

definition get ::
  "env \<Rightarrow> client \<Rightarrow> world \<Rightarrow> string \<Rightarrow> string option \<Rightarrow> int
     \<Rightarrow> (py_exn + response) \<times> client \<times> world" where
  "get e c w url cache_key cache_ttl =
     (let k = effective_key cache_key url in
      case cache_lookup c k (now w) cache_ttl of
        Some r \<Rightarrow> (Inr r, c, w)
      | None \<Rightarrow>
          (let (rl, w1) = acquire e (limiter c) w;
               c1 = c\<lparr>limiter := rl\<rparr>;
               sent = now w1;
               w2 = w1\<lparr>now := sent + latency e url sent,
                       requests := requests w1 @ [(url, sent)]\<rparr>
           in case upstream e url sent of
                Raises ex \<Rightarrow> (Inl ex, c1, w2)
              | Response r \<Rightarrow>
                  if status_code r = 200
                  then (Inr r, c1\<lparr>cache := (cache c1)(k \<mapsto> \<lparr>time = now w2, cached = r\<rparr>)\<rparr>, w2)
                  else (Inr r, c1, w2)))"


definition not_found_response :: response where
  "not_found_response = \<lparr>status_code = 404, body = '''', json = Inl ValueError\<rparr>"


definition env_404 :: env where
  "env_404 = \<lparr>upstream = (\<lambda>u t. Response not_found_response), latency = (\<lambda>u t. 1 / 2),
             oversleep = (\<lambda>t d. 0)\<rparr>"

definition env_down :: env where
  "env_down = \<lparr>upstream = (\<lambda>u t. Raises (RequestError ''timed out'')), latency = (\<lambda>u t. 10),
              oversleep = (\<lambda>t d. 0)\<rparr>"

definition client0 :: client where
  "client0 = \<lparr>limiter = \<lparr>calls_per_second = 5, min_interval = 1 / 5, last_call_time = 0\<rparr>,
              timeout = 10, cache = Map.empty\<rparr>"

definition world0 :: world where
  "world0 = \<lparr>now = 1000, requests = []\<rparr>"


definition world1 :: world where
  "world1 = \<lparr>now = 2001 / 2, requests = [(''u'', 1000)]\<rparr>"

definition client2 :: client where
  "client2 = \<lparr>limiter = \<lparr>calls_per_second = 5, min_interval = 1 / 5, last_call_time = 1000\<rparr>,
              timeout = 10, cache = Map.empty\<rparr>"

section \<open>Python operations used by the handlers\<close>

text \<open>Sequencing of steps that may raise: the first exception ends the computation.\<close>

definition then_do :: "py_exn + 'a \<Rightarrow> ('a \<Rightarrow> py_exn + 'b) \<Rightarrow> py_exn + 'b" where
  "then_do m f = (case m of Inl ex \<Rightarrow> Inl ex | Inr x \<Rightarrow> f x)"


definition digit_char :: "nat \<Rightarrow> char" where
  "digit_char d = char_of (48 + d)"

fun str_nat :: "nat \<Rightarrow> string" where
  "str_nat n = (if n < 10 then [digit_char n] else str_nat (n div 10) @ [digit_char (n mod 10)])"

declare str_nat.simps [simp del]

definition str_int :: "int \<Rightarrow> string" where
  "str_int i = (if i < 0 then CHR ''-'' # str_nat (nat (- i)) else str_nat (nat i))"








definition round_half_even :: "rat \<Rightarrow> int" where
  "round_half_even q =
     (let f = \<lfloor>q\<rfloor>; d = q - of_int f
      in if d < 1 / 2 then f else if 1 / 2 < d then f + 1 else if even f then f else f + 1)"










text \<open>
  What Python's own formatting contributes and the code does not decide: the text of an
  exception, of a float, and of a float or container inside JSON.
\<close>

record pylib =
  str_exc :: "py_exn \<Rightarrow> string"
  str_float :: "rat \<Rightarrow> string"
  repr_json :: "jvalue \<Rightarrow> string"


text \<open>\<^verbatim>\<open>response.raise_for_status()\<close> of httpx: it raises unless the status is 2xx.\<close>

definition raise_for_status :: "response \<Rightarrow> py_exn + unit" where
  "raise_for_status r =
     (if 200 \<le> status_code r \<and> status_code r \<le> 299 then Inr ()
      else Inl (HTTPStatusError (status_code r)))"




section \<open>The request helper of the server module\<close>

definition make_pubchem_request_try :: "(string \<Rightarrow> outcome) \<Rightarrow> string \<Rightarrow> py_exn + jvalue" where
  "make_pubchem_request_try fetch url =
     (case fetch url of
        Raises ex \<Rightarrow> Inl ex
      | Response r \<Rightarrow> then_do (raise_for_status r) (\<lambda>_. json r))"

definition error_record :: "string \<Rightarrow> string \<Rightarrow> jvalue" where
  "error_record kind message = JObj [(''error'', JStr kind), (''message'', JStr message)]"

definition make_pubchem_request :: "pylib \<Rightarrow> (string \<Rightarrow> outcome) \<Rightarrow> string \<Rightarrow> jvalue" where
  "make_pubchem_request lib fetch url =
     (case make_pubchem_request_try fetch url of
        Inr v \<Rightarrow> v
      | Inl ex \<Rightarrow>
          (case ex of
             HTTPStatusError code \<Rightarrow> error_record (''HTTP error: '' @ str_int code) (str_exc lib ex)
           | RequestError m \<Rightarrow> error_record ''Request error'' (str_exc lib ex)
           | _ \<Rightarrow> error_record ''Unexpected error'' (str_exc lib ex)))"

section \<open>The tool handlers (compounds/properties, compounds/similarity)\<close>





subsection \<open>get_compound_properties\<close>















subsection \<open>get_compound_synonyms\<close>













subsection \<open>search_similar_compounds_by_cid\<close>












section \<open>Concrete inputs for the handlers\<close>

text \<open>
  A formatting library for the examples: the text of a float with at most two decimals (as
  the scores and the usual thresholds are), and of the exceptions that carry a message.
\<close>

definition str_hundredths :: "rat \<Rightarrow> string" where
  "str_hundredths q =
     (let n = round_half_even (\<bar>q\<bar> * 100);
          whole = str_nat (nat (n div 100));
          d1 = digit_char (nat (n mod 100 div 10));
          d2 = digit_char (nat (n mod 10))
      in (if q < 0 then ''-'' else []) @ whole @ ''.'' @ (if n mod 10 = 0 then [d1] else [d1, d2]))"

definition lib0 :: pylib where
  "lib0 = \<lparr>str_exc = (\<lambda>ex. case ex of RequestError m \<Rightarrow> m | OtherException m \<Rightarrow> m | _ \<Rightarrow> ''error''),
           str_float = str_hundredths,
           repr_json = (\<lambda>v. ''...'')\<rparr>"



definition title_response :: response where
  "title_response =
     \<lparr>status_code = 200, body = ''(property table)'',
      json = Inr (JObj [(''PropertyTable'',
               JObj [(''Properties'', JArr [JObj [(''CID'', JInt 241), (''Title'', JStr ''Benzene'')]])])])\<rparr>"




definition garbled_response :: response where
  "garbled_response = \<lparr>status_code = 200, body = ''<html>'', json = Inl ValueError\<rparr>"



section \<open>Properties of the rate limiter and the caching client\<close>


lemma RateLimiter_init_nonzero:
  "cps \<noteq> 0 \<Longrightarrow> RateLimiter_init cps =
     Inr \<lparr>calls_per_second = cps, min_interval = 1 / cps, last_call_time = 0\<rparr>"
  by (simp add: RateLimiter_init_def)

lemma get_hit:
  "cache_lookup c (effective_key ck url) (now w) ttl = Some r \<Longrightarrow> get e c w url ck ttl = (Inr r, c, w)"
  by (simp add: get_def)

lemma get_miss:
  assumes "cache_lookup c (effective_key ck url) (now w) ttl = None"
      and "acquire e (limiter c) w = (rl, w1)"
  shows "get e c w url ck ttl =
     (case upstream e url (now w1) of
        Raises ex \<Rightarrow> (Inl ex, c\<lparr>limiter := rl\<rparr>,
           w1\<lparr>now := now w1 + latency e url (now w1), requests := requests w1 @ [(url, now w1)]\<rparr>)
      | Response r \<Rightarrow>
          (Inr r,
           if status_code r = 200
           then c\<lparr>limiter := rl,
                  cache := (cache c)(effective_key ck url \<mapsto>
                     \<lparr>time = now w1 + latency e url (now w1), cached = r\<rparr>)\<rparr>
           else c\<lparr>limiter := rl\<rparr>,
           w1\<lparr>now := now w1 + latency e url (now w1), requests := requests w1 @ [(url, now w1)]\<rparr>))"
  using assms by (simp add: get_def Let_def split: outcome.splits)

lemma acquire_requests: "acquire e rl w = (rl', w1) \<Longrightarrow> requests w1 = requests w"
  by (auto simp: acquire_def sleep_def Let_def split: if_splits)

lemma acquire_mono:
  assumes "\<forall>t d. 0 \<le> oversleep e t d" and "acquire e rl w = (rl', w1)"
  shows "now w \<le> now w1"
proof (cases "now w - last_call_time rl < min_interval rl")
  case True
  let ?d = "min_interval rl - (now w - last_call_time rl)"
  have "0 \<le> oversleep e (now w) ?d" using assms(1) by blast
  moreover have "0 < ?d" using True by simp
  moreover have "now w1 = now w + ?d + oversleep e (now w) ?d"
    using assms(2) True by (auto simp: acquire_def sleep_def Let_def)
  ultimately show ?thesis by linarith
next
  case False
  then show ?thesis using assms(2) by (auto simp: acquire_def Let_def)
qed

lemma get_hit_iff:
  "get e c w url ck ttl = (res, c1, w1) \<Longrightarrow>
   (requests w1 = requests w) = (cache_lookup c (effective_key ck url) (now w) ttl \<noteq> None)"
  apply (cases "cache_lookup c (effective_key ck url) (now w) ttl")
   apply (cases "acquire e (limiter c) w")
   apply (frule (1) get_miss)
   apply (drule acquire_requests)
   apply (auto split: outcome.splits if_splits)[1]
  apply (auto simp: get_hit)
  done






lemma get_cache_change:
  assumes "get e c w url ck ttl = (res, c1, w1)"
  shows "cache c1 = cache c
       \<or> (\<exists>r. res = Inr r \<and> status_code r = 200 \<and> requests w1 \<noteq> requests w
              \<and> cache c1 = (cache c)(effective_key ck url \<mapsto> \<lparr>time = now w1, cached = r\<rparr>))"
proof (cases "cache_lookup c (effective_key ck url) (now w) ttl")
  case (Some r)
  then show ?thesis using assms by (simp add: get_hit)
next
  case None
  obtain rl wa where acq: "acquire e (limiter c) w = (rl, wa)"
    by (cases "acquire e (limiter c) w")
  have req: "requests wa = requests w" using acq by (rule acquire_requests)
  show ?thesis
    using assms req unfolding get_miss [OF None acq]
    by (cases "upstream e url (now wa)") (auto split: if_splits)
qed

lemma get_clock_mono:
  assumes lat: "\<forall>u t. 0 \<le> latency e u t" and over: "\<forall>t d. 0 \<le> oversleep e t d"
      and call: "get e c w url ck ttl = (res, c1, w1)"
  shows "now w \<le> now w1"
proof (cases "cache_lookup c (effective_key ck url) (now w) ttl")
  case (Some r)
  then show ?thesis using call by (simp add: get_hit)
next
  case None
  obtain rl wa where acq: "acquire e (limiter c) w = (rl, wa)"
    by (cases "acquire e (limiter c) w")
  have a: "now w \<le> now wa" using over acq by (rule acquire_mono)
  have b: "0 \<le> latency e url (now wa)" using lat by blast
  have "now w1 = now wa + latency e url (now wa)"
    using call unfolding get_miss [OF None acq]
    by (cases "upstream e url (now wa)") (auto split: if_splits)
  then show ?thesis using a b by linarith
qed

lemma miss_fetches:
  assumes "cache_lookup c (effective_key ck url) (now w) ttl = None"
  shows "\<exists>res c2 w2 t. get e c w url ck ttl = (res, c2, w2) \<and> requests w2 = requests w @ [(url, t)]"
proof -
  obtain rl wa where acq: "acquire e (limiter c) w = (rl, wa)"
    by (cases "acquire e (limiter c) w")
  have req: "requests wa = requests w" using acq by (rule acquire_requests)
  show ?thesis
    unfolding get_miss [OF assms acq] using req
    by (cases "upstream e url (now wa)") auto
qed

lemma miss_persists:
  assumes "cache_lookup c k t ttl = None" and "cache c1 = cache c" and "t \<le> t'"
  shows "cache_lookup c1 k t' ttl = None"
  using assms by (auto simp: cache_lookup_def split: option.splits if_splits)


lemma failed_call_example:
  "get env_404 client0 world0 ''u'' None 3600 = (Inr not_found_response, client2, world1)"
  by (simp add: get_def effective_key_def cache_lookup_def client0_def world0_def acquire_def
      Let_def env_404_def not_found_response_def client2_def world1_def)



text \<open>
  C3. No negative caching. Whatever a call does, every entry found in the cache afterwards
  was there before or is the status-200 response this call returned. When the call fetched
  and the fetch failed (an exception, or a status other than 200), the cache is unchanged,
  and, the clock not running backwards, repeating the call at once makes a new network call.
\<close>

theorem failed_fetch_not_cached:
  "get e c w url ck ttl = (res, c1, w1) \<longrightarrow>
     (\<forall>k en. cache c1 k = Some en \<longrightarrow>
        cache c k = Some en
      \<or> (k = effective_key ck url \<and> res = Inr (cached en) \<and> status_code (cached en) = 200))
   \<and> (requests w1 \<noteq> requests w \<and> (\<forall>r. res = Inr r \<longrightarrow> status_code r \<noteq> 200) \<longrightarrow>
        cache c1 = cache c
      \<and> ((\<forall>u t. 0 \<le> latency e u t) \<and> (\<forall>t d. 0 \<le> oversleep e t d) \<longrightarrow>
           (\<exists>res2 c2 w2 t. get e c1 w1 url ck ttl = (res2, c2, w2)
                          \<and> requests w2 = requests w1 @ [(url, t)])))"
proof (intro impI conjI allI)
  fix k :: string and en :: cache_entry
  assume call: "get e c w url ck ttl = (res, c1, w1)" and en: "cache c1 k = Some en"
  from get_cache_change [OF call] en
  show "cache c k = Some en
      \<or> (k = effective_key ck url \<and> res = Inr (cached en) \<and> status_code (cached en) = 200)"
    by (auto split: if_splits)
next
  assume call: "get e c w url ck ttl = (res, c1, w1)"
     and failed: "requests w1 \<noteq> requests w \<and> (\<forall>r. res = Inr r \<longrightarrow> status_code r \<noteq> 200)"
  from get_cache_change [OF call] failed show "cache c1 = cache c" by auto
next
  assume call: "get e c w url ck ttl = (res, c1, w1)"
     and failed: "requests w1 \<noteq> requests w \<and> (\<forall>r. res = Inr r \<longrightarrow> status_code r \<noteq> 200)"
     and mono: "(\<forall>u t. 0 \<le> latency e u t) \<and> (\<forall>t d. 0 \<le> oversleep e t d)"
  have same: "cache c1 = cache c" using get_cache_change [OF call] failed by auto
  have miss: "cache_lookup c (effective_key ck url) (now w) ttl = None"
    using get_hit_iff [OF call] failed by simp
  have later: "now w \<le> now w1" using mono call get_clock_mono by blast
  have "cache_lookup c1 (effective_key ck url) (now w1) ttl = None"
    using miss same later by (rule miss_persists)
  then show "\<exists>res2 c2 w2 t. get e c1 w1 url ck ttl = (res2, c2, w2)
                          \<and> requests w2 = requests w1 @ [(url, t)]"
    by (rule miss_fetches)
qed

theorem failed_fetch_not_cached_witness:
  "get env_404 client0 world0 ''u'' None 3600 = (Inr not_found_response, client2, world1)
   \<and> requests world1 \<noteq> requests world0
   \<and> status_code not_found_response \<noteq> 200
   \<and> (\<forall>u t. 0 \<le> latency env_404 u t) \<and> (\<forall>t d. 0 \<le> oversleep env_404 t d)
   \<and> cache client2 = cache client0
   \<and> (\<exists>res2 c2 w2 t. get env_404 client2 world1 ''u'' None 3600 = (res2, c2, w2)
                     \<and> requests w2 = requests world1 @ [(''u'', t)])"
proof -
  have a: "get env_404 client0 world0 ''u'' None 3600 = (Inr not_found_response, client2, world1)"
    by (rule failed_call_example)
  have b: "requests world1 \<noteq> requests world0" by (simp add: world1_def world0_def)
  have c: "\<forall>r. (Inr not_found_response :: py_exn + response) = Inr r \<longrightarrow> status_code r \<noteq> 200"
    by (simp add: not_found_response_def)
  have d: "(\<forall>u t. 0 \<le> latency env_404 u t) \<and> (\<forall>t d. 0 \<le> oversleep env_404 t d)"
    by (simp add: env_404_def)
  note t = failed_fetch_not_cached [of env_404 client0 world0 "''u''" None 3600
      "Inr not_found_response" client2 world1]
  have e: "cache client2 = cache client0" using t a b c by blast
  have f: "\<exists>res2 c2 w2 t. get env_404 client2 world1 ''u'' None 3600 = (res2, c2, w2)
                     \<and> requests w2 = requests world1 @ [(''u'', t)]"
    using t a b c d by blast
  have g: "status_code not_found_response \<noteq> 200" by (simp add: not_found_response_def)
  show ?thesis using a b g d e f by blast
qed




section \<open>Properties of the tool handlers\<close>

lemma then_do_Inr: "then_do (Inr x) f = f x"
  by (simp add: then_do_def)

lemma then_do_Inl: "then_do (Inl ex) f = Inl ex"
  by (simp add: then_do_def)




lemma raise_for_status_bad:
  "status_code r < 200 \<or> 299 < status_code r \<Longrightarrow>
   raise_for_status r = Inl (HTTPStatusError (status_code r))"
  by (auto simp: raise_for_status_def)

lemma raise_for_status_good:
  "200 \<le> status_code r \<Longrightarrow> status_code r \<le> 299 \<Longrightarrow> raise_for_status r = Inr ()"
  by (simp add: raise_for_status_def)






























section \<open>The return contract of the two request paths\<close>

lemma get_fetched_result:
  assumes call: "get e c w url ck ttl = (res, c1, w1)"
      and sent: "requests w1 = requests w @ [(url, t)]"
  shows "res = (case upstream e url t of Response r \<Rightarrow> Inr r | Raises ex \<Rightarrow> Inl ex)"
proof (cases "cache_lookup c (effective_key ck url) (now w) ttl")
  case (Some r)
  then have "requests w1 = requests w" using call by (simp add: get_hit)
  then show ?thesis using sent by simp
next
  case None
  obtain rl wa where acq: "acquire e (limiter c) w = (rl, wa)"
    by (cases "acquire e (limiter c) w")
  have req: "requests wa = requests w" using acq by (rule acquire_requests)
  have "requests w1 = requests w @ [(url, now wa)]"
    using call req unfolding get_miss [OF None acq]
    by (cases "upstream e url (now wa)") (auto split: if_splits)
  then have t: "t = now wa" using sent by simp
  show ?thesis
    using call unfolding get_miss [OF None acq] t
    by (cases "upstream e url (now wa)") (auto split: if_splits)
qed

lemma request_decoded:
  "fetch url = Response r \<Longrightarrow> 200 \<le> status_code r \<Longrightarrow> status_code r \<le> 299 \<Longrightarrow> json r = Inr v \<Longrightarrow>
   make_pubchem_request lib fetch url = v"
  by (simp add: make_pubchem_request_def make_pubchem_request_try_def raise_for_status_good then_do_Inr)

lemma request_bad_status:
  "fetch url = Response r \<Longrightarrow> status_code r < 200 \<or> 299 < status_code r \<Longrightarrow>
   make_pubchem_request lib fetch url =
     error_record (''HTTP error: '' @ str_int (status_code r)) (str_exc lib (HTTPStatusError (status_code r)))"
  by (simp add: make_pubchem_request_def make_pubchem_request_try_def raise_for_status_bad then_do_Inl)

lemma request_transport_error:
  "fetch url = Raises (RequestError m) \<Longrightarrow>
   make_pubchem_request lib fetch url = error_record ''Request error'' (str_exc lib (RequestError m))"
  by (simp add: make_pubchem_request_def make_pubchem_request_try_def)

lemma request_unexpected:
  "make_pubchem_request_try fetch url = Inl ex \<Longrightarrow>
   (\<forall>code. ex \<noteq> HTTPStatusError code) \<Longrightarrow> (\<forall>m. ex \<noteq> RequestError m) \<Longrightarrow>
   make_pubchem_request lib fetch url = error_record ''Unexpected error'' (str_exc lib ex)"
  by (cases ex) (simp_all add: make_pubchem_request_def)

lemma str_int_404: "str_int 404 = ''404''"
  by code_simp

text \<open>
  C4, as claimed: on a transport failure the Gateway returns a tagged error record. A
  connection failure leaves \<^verbatim>\<open>PubChemClient.get\<close> as the exception itself.
\<close>

theorem gateway_raises_counterexample:
  "fst (get env_down client0 world0 ''u'' None 3600) = Inl (RequestError ''timed out'')"
  by (simp add: get_def effective_key_def cache_lookup_def client0_def world0_def acquire_def
      Let_def env_down_def)

text \<open>
  C4, amended. \<^verbatim>\<open>PubChemClient.get\<close>, the rate-limited caching client, returns what the
  transport delivered, untouched and whatever its status code, and lets a transport
  exception propagate: it builds no error record. The tagged record is the work of the
  separate helper \<^verbatim>\<open>make_pubchem_request\<close>, which returns the decoded JSON of a 2xx
  response (not the raw response) and otherwise a dict with the keys "error" and "message":
  "HTTP error: <status>" for a status outside 2xx, "Request error" for an
  \<^verbatim>\<open>httpx.RequestError\<close>, and "Unexpected error" for any other exception.
\<close>

theorem gateway_raw_response_or_exception:
  "(get e c w url ck ttl = (res, c1, w1) \<and> requests w1 = requests w @ [(url, t)] \<longrightarrow>
      res = (case upstream e url t of Response r \<Rightarrow> Inr r | Raises ex \<Rightarrow> Inl ex))
 \<and> (fetch u = Response r \<and> 200 \<le> status_code r \<and> status_code r \<le> 299 \<and> json r = Inr v \<longrightarrow>
      make_pubchem_request lib fetch u = v)
 \<and> (fetch u = Response r \<and> (status_code r < 200 \<or> 299 < status_code r) \<longrightarrow>
      make_pubchem_request lib fetch u =
        error_record (''HTTP error: '' @ str_int (status_code r))
          (str_exc lib (HTTPStatusError (status_code r))))
 \<and> (fetch u = Raises (RequestError m) \<longrightarrow>
      make_pubchem_request lib fetch u = error_record ''Request error'' (str_exc lib (RequestError m)))
 \<and> (make_pubchem_request_try fetch u = Inl ex
      \<and> (\<forall>code. ex \<noteq> HTTPStatusError code) \<and> (\<forall>m. ex \<noteq> RequestError m) \<longrightarrow>
      make_pubchem_request lib fetch u = error_record ''Unexpected error'' (str_exc lib ex))"
proof (intro conjI impI)
  assume "get e c w url ck ttl = (res, c1, w1) \<and> requests w1 = requests w @ [(url, t)]"
  then show "res = (case upstream e url t of Response r \<Rightarrow> Inr r | Raises ex \<Rightarrow> Inl ex)"
    using get_fetched_result by blast
next
  assume "fetch u = Response r \<and> 200 \<le> status_code r \<and> status_code r \<le> 299 \<and> json r = Inr v"
  then show "make_pubchem_request lib fetch u = v"
    using request_decoded by blast
next
  assume "fetch u = Response r \<and> (status_code r < 200 \<or> 299 < status_code r)"
  then show "make_pubchem_request lib fetch u =
        error_record (''HTTP error: '' @ str_int (status_code r))
          (str_exc lib (HTTPStatusError (status_code r)))"
    using request_bad_status by blast
next
  assume "fetch u = Raises (RequestError m)"
  then show "make_pubchem_request lib fetch u = error_record ''Request error'' (str_exc lib (RequestError m))"
    by (rule request_transport_error)
next
  assume "make_pubchem_request_try fetch u = Inl ex
      \<and> (\<forall>code. ex \<noteq> HTTPStatusError code) \<and> (\<forall>m. ex \<noteq> RequestError m)"
  then show "make_pubchem_request lib fetch u = error_record ''Unexpected error'' (str_exc lib ex)"
    using request_unexpected by blast
qed

theorem gateway_raw_response_or_exception_witness:
  "get env_404 client0 world0 ''u'' None 3600 = (Inr not_found_response, client2, world1)
   \<and> requests world1 = requests world0 @ [(''u'', 1000)]
   \<and> (Inr not_found_response :: py_exn + response)
       = (case upstream env_404 ''u'' 1000 of Response r \<Rightarrow> Inr r | Raises ex \<Rightarrow> Inl ex)
   \<and> 299 < status_code not_found_response
   \<and> make_pubchem_request lib0 (\<lambda>u. Response not_found_response) ''u''
       = error_record ''HTTP error: 404'' ''error''
   \<and> make_pubchem_request lib0 (\<lambda>u. Response title_response) ''u''
       = JObj [(''PropertyTable'',
               JObj [(''Properties'', JArr [JObj [(''CID'', JInt 241), (''Title'', JStr ''Benzene'')]])])]
   \<and> make_pubchem_request lib0 (\<lambda>u. Raises (RequestError ''timed out'')) ''u''
       = error_record ''Request error'' ''timed out''
   \<and> make_pubchem_request lib0 (\<lambda>u. Response garbled_response) ''u''
       = error_record ''Unexpected error'' ''error''"
proof -
  have a: "get env_404 client0 world0 ''u'' None 3600 = (Inr not_found_response, client2, world1)"
    by (rule failed_call_example)
  have b: "requests world1 = requests world0 @ [(''u'', 1000)]"
    by (simp add: world1_def world0_def)
  have c: "299 < status_code not_found_response" by (simp add: not_found_response_def)
  have d: "200 \<le> status_code title_response \<and> status_code title_response \<le> 299
           \<and> json title_response = Inr (JObj [(''PropertyTable'',
               JObj [(''Properties'', JArr [JObj [(''CID'', JInt 241), (''Title'', JStr ''Benzene'')]])])])"
    by (simp add: title_response_def)
  have e: "make_pubchem_request_try (\<lambda>u. Response garbled_response) ''u'' = Inl ValueError"
    by (simp add: make_pubchem_request_try_def garbled_response_def raise_for_status_def then_do_def)
  note t1 = gateway_raw_response_or_exception [of env_404 client0 world0 "''u''" None 3600
      "Inr not_found_response" client2 world1 1000 "\<lambda>u. Response not_found_response" "''u''"
      not_found_response _ lib0 "''timed out''" ValueError]
  note t2 = gateway_raw_response_or_exception [of env_404 client0 world0 "''u''" None 3600
      "Inr not_found_response" client2 world1 1000 "\<lambda>u. Response title_response" "''u''"
      title_response _ lib0 "''timed out''" ValueError]
  note t3 = gateway_raw_response_or_exception [of env_404 client0 world0 "''u''" None 3600
      "Inr not_found_response" client2 world1 1000 "\<lambda>u. Raises (RequestError ''timed out'')" "''u''"
      title_response _ lib0 "''timed out''" ValueError]
  note t4 = gateway_raw_response_or_exception [of env_404 client0 world0 "''u''" None 3600
      "Inr not_found_response" client2 world1 1000
      "\<lambda>u. Response garbled_response" "''u''"
      title_response _ lib0 "''timed out''" ValueError]
  have f: "(Inr not_found_response :: py_exn + response)
       = (case upstream env_404 ''u'' 1000 of Response r \<Rightarrow> Inr r | Raises ex \<Rightarrow> Inl ex)"
    using t1 [THEN conjunct1] a b by blast
  have g0: "make_pubchem_request lib0 (\<lambda>u. Response not_found_response) ''u''
       = error_record (''HTTP error: '' @ str_int (status_code not_found_response))
          (str_exc lib0 (HTTPStatusError (status_code not_found_response)))"
    using t1 [THEN conjunct2, THEN conjunct2, THEN conjunct1] c by blast
  have g: "make_pubchem_request lib0 (\<lambda>u. Response not_found_response) ''u''
       = error_record ''HTTP error: 404'' ''error''"
    unfolding g0 by (simp add: not_found_response_def str_int_404 lib0_def)
  have h: "make_pubchem_request lib0 (\<lambda>u. Response title_response) ''u''
       = JObj [(''PropertyTable'',
               JObj [(''Properties'', JArr [JObj [(''CID'', JInt 241), (''Title'', JStr ''Benzene'')]])])]"
    using t2 [THEN conjunct2, THEN conjunct1] d by blast
  have i0: "make_pubchem_request lib0 (\<lambda>u. Raises (RequestError ''timed out'')) ''u''
       = error_record ''Request error'' (str_exc lib0 (RequestError ''timed out''))"
    using t3 [THEN conjunct2, THEN conjunct2, THEN conjunct2, THEN conjunct1] by blast
  have i: "make_pubchem_request lib0 (\<lambda>u. Raises (RequestError ''timed out'')) ''u''
       = error_record ''Request error'' ''timed out''"
    unfolding i0 by (simp add: lib0_def)
  have j0: "make_pubchem_request lib0 (\<lambda>u. Response garbled_response) ''u''
       = error_record ''Unexpected error'' (str_exc lib0 ValueError)"
    using t4 [THEN conjunct2, THEN conjunct2, THEN conjunct2, THEN conjunct2] e by blast
  have j: "make_pubchem_request lib0 (\<lambda>u. Response garbled_response) ''u''
       = error_record ''Unexpected error'' ''error''"
    unfolding j0 by (simp add: lib0_def)
  show ?thesis using a b c f g h i j by (intro conjI)
qed

section \<open>The synonym limit\<close>


















end
